theory Spec2Isabelle
  imports Main
begin

section \<open>Errors and responses\<close>

text \<open>
  Every API function of the teamserver takes a parameter dictionary and either returns a
  success response or raises. The exceptions that the modelled functions can raise are the
  constructors of \<open>error\<close>; the last group are the error kinds of the specification's
  taxonomy that no modelled function raises.
\<close>

datatype error =
    KeyError
  | ValueError
  | TypeError
  | AttributeError
  | PermissionDenied string
  | CannotBindAction string
  | DuplicateKey
  | NotFound
  | AuthenticationFailed
  | MalformedAction
  | NoActiveSession
  | InvalidStateTransition

section \<open>Documents of the identity store\<close>

record user =
  username :: string
  password :: string
  administrator :: bool

record api_key =
  key :: string
  key_owner :: string
  key_allowed_api_calls :: "string list"

record role =
  role_name :: string
  role_allowed_api_calls :: "string list"
  role_users :: "string list"

section \<open>Targets, sessions and actions\<close>

text \<open>
  Modelled from the spec: the \<open>Session\<close> and \<open>Target\<close> documents (the module
  \<open>models\<close> is not part of the sources). A target exposes an iterable of sessions, each
  with a session id, a status and a polling interval.
\<close>

record session =
  session_id :: string
  status :: string
  interval :: int

record target =
  t_name :: string
  sessions :: "session list"

datatype action_status = Queued | Retrieved | Cancelled

text \<open>
  The fields of \<open>Action\<close> that \<open>create_action\<close> passes to the constructor, followed by
  what is modelled from the spec (the class itself is in \<open>models\<close>): the auxiliary fields
  that \<open>update_fields\<close> merges onto the record, and the two flags from which the status
  is derived ("status derived from whether it has been cancelled/retrieved").
\<close>

record action =
  action_id :: string
  target_name :: string
  action_string :: string
  action_type :: string
  bound_session_id :: "string option"
  queue_time :: int
  owner :: string
  aux_fields :: "(string \<times> string) list"
  cancelled :: bool
  retrieved :: bool

record parsed_action =
  pa_action_type :: string
  pa_fields :: "(string \<times> string) list"

record action_document =
  d_action_id :: string
  d_target_name :: string
  d_action_string :: string
  d_action_type :: string
  d_bound_session_id :: "string option"
  d_queue_time :: int
  d_owner :: string
  d_status :: action_status

datatype response =
    Success
  | SuccessApiKey string
  | SuccessActionId string
  | SuccessAction action_document
  | UncommittedAction action

type_synonym result = "error + response"

section \<open>Parameters, context and collaborators\<close>

text \<open>
  The parameter dictionary \<open>params\<close>: one optional field for each key that the modelled
  functions read; \<open>None\<close> is an absent key.
\<close>

record params =
  p_username :: "string option"
  p_password :: "string option"
  p_allowed_api_calls :: "string list option"
  p_user_context :: "string option"
  p_name :: "string option"
  p_users :: "string list option"
  p_current_password :: "string option"
  p_new_password :: "string option"
  p_api_key :: "string option"
  p_target_name :: "string option"
  p_action_string :: "string option"
  p_bound_session_id :: "string option"
  p_action_id :: "string option"
  p_quick :: "bool option"

definition no_params :: params where
  "no_params =
     \<lparr>p_username = None, p_password = None, p_allowed_api_calls = None,
      p_user_context = None, p_name = None, p_users = None, p_current_password = None,
      p_new_password = None, p_api_key = None, p_target_name = None,
      p_action_string = None, p_bound_session_id = None, p_action_id = None,
      p_quick = None\<rparr>"

text \<open>
  What \<open>get_context(params)\<close> returns: the current user (or \<open>None\<close>), the list of API
  methods the caller may invoke, and the administrator flag.
\<close>

record auth_context =
  ctx_user :: "user option"
  ctx_allowed_methods :: "string list"
  ctx_administrator :: bool

text \<open>
  The collaborators that the two modules import and that are not part of the sources are
  parameters of the model: \<open>utils.get_context\<close>, the password primitives of \<open>User\<close>,
  \<open>Action.parse_action_string\<close>, the \<open>argon2\<close> and \<open>base64\<close> libraries, the constants of
  \<open>config\<close>, and the two sources of nondeterminism (\<open>uuid4\<close>, where \<open>uuid4 E n\<close> is the
  text of the \<open>n\<close>-th identifier drawn during the call, and \<open>time.time\<close>).
\<close>

record env =
  get_context :: "params \<Rightarrow> error + auth_context"
  hash_password :: "string \<Rightarrow> string"
  verify_password :: "string \<Rightarrow> string \<Rightarrow> bool"
  parse_action_string :: "string \<Rightarrow> error + parsed_action"
  argon2_hash :: "string \<Rightarrow> string \<Rightarrow> string"
  b64encode :: "string \<Rightarrow> string"
  API_KEY_SALT :: string
  SESSION_STATUSES :: "string \<rightharpoonup> string"
  uuid4 :: "nat \<Rightarrow> string"
  time_now :: int

section \<open>The persistent store\<close>

record store =
  users :: "string \<rightharpoonup> user"
  api_keys :: "string \<rightharpoonup> api_key"
  roles :: "string \<rightharpoonup> role"
  targets :: "string \<rightharpoonup> target"
  actions :: "string \<rightharpoonup> action"

text \<open>
  Modelled from the spec: \<open>save(force_insert=True)\<close> of the document classes of \<open>models\<close>.
  The store enforces uniqueness of usernames, API keys, role names and action ids with
  insert-if-absent semantics; a collision is a \<open>DuplicateKey\<close> failure.
\<close>

definition insert_user :: "store \<Rightarrow> user \<Rightarrow> error + store" where
  "insert_user st u =
     (if users st (username u) = None
      then Inr (st\<lparr>users := (users st)(username u \<mapsto> u)\<rparr>)
      else Inl DuplicateKey)"

definition insert_api_key :: "store \<Rightarrow> api_key \<Rightarrow> error + store" where
  "insert_api_key st k =
     (if api_keys st (key k) = None
      then Inr (st\<lparr>api_keys := (api_keys st)(key k \<mapsto> k)\<rparr>)
      else Inl DuplicateKey)"

definition insert_role :: "store \<Rightarrow> role \<Rightarrow> error + store" where
  "insert_role st r =
     (if roles st (role_name r) = None
      then Inr (st\<lparr>roles := (roles st)(role_name r \<mapsto> r)\<rparr>)
      else Inl DuplicateKey)"

definition insert_action :: "store \<Rightarrow> action \<Rightarrow> error + store" where
  "insert_action st a =
     (if actions st (action_id a) = None
      then Inr (st\<lparr>actions := (actions st)(action_id a \<mapsto> a)\<rparr>)
      else Inl DuplicateKey)"

text \<open>
  Modelled from the spec: \<open>user.save()\<close> on a document that was read from the store (the
  store's update), \<open>User.get_user\<close> (get-by-name, \<open>NotFound\<close> when absent) and
  \<open>api_key.remove()\<close> (the store's delete).
\<close>

definition save_user :: "store \<Rightarrow> user \<Rightarrow> store" where
  "save_user st u = st\<lparr>users := (users st)(username u \<mapsto> u)\<rparr>"

definition get_user :: "store \<Rightarrow> string \<Rightarrow> error + user" where
  "get_user st n = (case users st n of None \<Rightarrow> Inl NotFound | Some u \<Rightarrow> Inr u)"

definition remove_key :: "store \<Rightarrow> api_key \<Rightarrow> store" where
  "remove_key st k = st\<lparr>api_keys := (api_keys st)(key k := None)\<rparr>"

text \<open>
  The two local values of \<open>create_api_key\<close> that the claims speak about: the raw secret
  (five identifiers formatted one after the other) and the encoded hash of a secret.
\<close>

definition original_key :: "env \<Rightarrow> string" where
  "original_key E = uuid4 E 0 @ uuid4 E 1 @ uuid4 E 2 @ uuid4 E 3 @ uuid4 E 4"

definition mid_hash :: "env \<Rightarrow> string \<Rightarrow> string" where
  "mid_hash E secret = b64encode E (argon2_hash E secret (API_KEY_SALT E))"

text \<open>
  Modelled from the spec: \<open>APIKey.get_key\<close>. Only the hash of a secret is ever compared
  against, so the presented secret is hashed as at creation and the record is looked up
  under that hash; an unknown key is \<open>NotFound\<close>.
\<close>

definition get_key :: "env \<Rightarrow> store \<Rightarrow> string \<Rightarrow> error + api_key" where
  "get_key E st secret =
     (case api_keys st (API_KEY_SALT E @ ''$'' @ mid_hash E secret) of
        None \<Rightarrow> Inl NotFound
      | Some k \<Rightarrow> Inr k)"

text \<open>
  Modelled from the spec: \<open>User.update_password\<close>, the two-step change of a password
  (verify the old one, set the new one); a current password that does not verify is
  \<open>AuthenticationFailed\<close>.
\<close>

definition update_password :: "env \<Rightarrow> store \<Rightarrow> user \<Rightarrow> string \<Rightarrow> string \<Rightarrow> error + store" where
  "update_password E st u current_password new_password =
     (if verify_password E current_password (password u)
      then Inr (save_user st (u\<lparr>password := hash_password E new_password\<rparr>))
      else Inl AuthenticationFailed)"


section \<open>The Auth API\<close>

text \<open>
  Each function returns the outcome of the call (the exception raised, or the response)
  together with the store after the call. The decorator \<open>handle_exceptions\<close> only turns
  the exception into the failure response, so the exception itself is the outcome.
\<close>

definition create_user :: "env \<Rightarrow> store \<Rightarrow> params \<Rightarrow> result \<times> store" where
  "create_user E st params =
     (case p_password params of
        None \<Rightarrow> (Inl KeyError, st)
      | Some pw \<Rightarrow>
          let password_hash = hash_password E pw;
              params' = params\<lparr>p_password := None\<rparr>
          in (case p_username params' of
                None \<Rightarrow> (Inl KeyError, st)
              | Some un \<Rightarrow>
                  let user = \<lparr>username = un, password = password_hash, administrator = False\<rparr>
                  in (case insert_user st user of
                        Inl e \<Rightarrow> (Inl e, st)
                      | Inr st' \<Rightarrow> (Inr Success, st'))))"

text \<open>
  \<open>create_api_key\<close>. \<open>user.username\<close> on a context without a user is an
  \<open>AttributeError\<close>. The test \<open>if allowed_api_calls:\<close> is false for an absent key and
  for the empty list.
\<close>

definition create_api_key :: "env \<Rightarrow> store \<Rightarrow> params \<Rightarrow> result \<times> store" where
  "create_api_key E st params =
     (case get_context E params of
        Inl e \<Rightarrow> (Inl e, st)
      | Inr c \<Rightarrow>
          (case ctx_user c of
             None \<Rightarrow> (Inl AttributeError, st)
           | Some user \<Rightarrow>
               let owner = username user;
                   allowed_methods = ctx_allowed_methods c;
                   verified =
                     (case p_allowed_api_calls params of
                        None \<Rightarrow> Inr allowed_methods
                      | Some allowed_api_calls \<Rightarrow>
                          if allowed_api_calls \<noteq> [] then
                            (if list_ex (\<lambda>method. method \<notin> set allowed_methods) allowed_api_calls
                             then (if ''*'' \<notin> set allowed_methods
                                   then Inl (PermissionDenied
                                     ''Cannot create API key with more permissions than key owner.'')
                                   else Inr allowed_api_calls)
                             else Inr allowed_api_calls)
                          else Inr allowed_methods)
               in (case verified of
                     Inl e \<Rightarrow> (Inl e, st)
                   | Inr allowed_api_calls \<Rightarrow>
                       let secret = original_key E;
                           k = \<lparr>key = API_KEY_SALT E @ ''$'' @ mid_hash E secret,
                                key_owner = owner,
                                key_allowed_api_calls = allowed_api_calls\<rparr>
                       in (case insert_api_key st k of
                             Inl e \<Rightarrow> (Inl e, st)
                           | Inr st' \<Rightarrow> (Inr (SuccessApiKey secret), st')))))"

text \<open>
  \<open>create_role\<close>. The source looks \<open>params\<close> up with \<open>params.get(users)\<close>, where
  \<open>users\<close> is the local list \<open>[]\<close> and not the string \<open>'users'\<close>. \<open>params\<close> is a
  \<open>dict\<close>, whose \<open>get\<close> hashes the key, and a list is unhashable: the lookup raises
  \<open>TypeError\<close> whatever the dictionary holds.
\<close>

definition params_get_list_key :: "params \<Rightarrow> string list \<Rightarrow> error + string list option" where
  "params_get_list_key params k = Inl TypeError"

fun get_usernames :: "store \<Rightarrow> string list \<Rightarrow> error + string list" where
  "get_usernames st [] = Inr []"
| "get_usernames st (n # ns) =
     (case get_user st n of
        Inl e \<Rightarrow> Inl e
      | Inr u \<Rightarrow>
          (case get_usernames st ns of
             Inl e \<Rightarrow> Inl e
           | Inr us \<Rightarrow> Inr (username u # us)))"

definition create_role :: "env \<Rightarrow> store \<Rightarrow> params \<Rightarrow> result \<times> store" where
  "create_role E st params =
     (case p_name params of
        None \<Rightarrow> (Inl KeyError, st)
      | Some name \<Rightarrow>
          (case p_allowed_api_calls params of
             None \<Rightarrow> (Inl KeyError, st)
           | Some allowed_api_calls \<Rightarrow>
               let users0 = [] in
               (case params_get_list_key params users0 of
                  Inl e \<Rightarrow> (Inl e, st)
                | Inr found \<Rightarrow>
                    let looked_up =
                          (if found \<noteq> None \<and> found \<noteq> Some []
                           then (case p_users params of
                                   None \<Rightarrow> Inl KeyError
                                 | Some names \<Rightarrow> get_usernames st names)
                           else Inr users0)
                    in (case looked_up of
                          Inl e \<Rightarrow> (Inl e, st)
                        | Inr members \<Rightarrow>
                            let r = \<lparr>role_name = name,
                                     role_allowed_api_calls = allowed_api_calls,
                                     role_users = members\<rparr>
                            in (case insert_role st r of
                                  Inl e \<Rightarrow> (Inl e, st)
                                | Inr st' \<Rightarrow> (Inr Success, st'))))))"

text \<open>
  \<open>update_user_password\<close>. Both branches read an attribute of \<open>user\<close> before anything
  else, so a context without a user is an \<open>AttributeError\<close>. In the second branch the
  arguments \<open>params['current_password']\<close> and \<open>params['new_password']\<close> are evaluated in
  this order before the call.
\<close>

definition update_user_password :: "env \<Rightarrow> store \<Rightarrow> params \<Rightarrow> result \<times> store" where
  "update_user_password E st params =
     (case get_context E params of
        Inl e \<Rightarrow> (Inl e, st)
      | Inr c \<Rightarrow>
          (case ctx_user c of
             None \<Rightarrow> (Inl AttributeError, st)
           | Some user \<Rightarrow>
               if ctx_administrator c \<and> \<not> administrator user then
                 (case p_new_password params of
                    None \<Rightarrow> (Inl KeyError, st)
                  | Some new_password \<Rightarrow>
                      (Inr Success,
                       save_user st (user\<lparr>password := hash_password E new_password\<rparr>)))
               else
                 (case p_current_password params of
                    None \<Rightarrow> (Inl KeyError, st)
                  | Some current_password \<Rightarrow>
                      (case p_new_password params of
                         None \<Rightarrow> (Inl KeyError, st)
                       | Some new_password \<Rightarrow>
                           (case update_password E st user current_password new_password of
                              Inl e \<Rightarrow> (Inl e, st)
                            | Inr st' \<Rightarrow> (Inr Success, st'))))))"

text \<open>
  \<open>revoke_api_key\<close>. The key is fetched before \<open>user.username\<close> is read.
\<close>

definition revoke_api_key :: "env \<Rightarrow> store \<Rightarrow> params \<Rightarrow> result \<times> store" where
  "revoke_api_key E st params =
     (case get_context E params of
        Inl e \<Rightarrow> (Inl e, st)
      | Inr c \<Rightarrow>
          (case p_api_key params of
             None \<Rightarrow> (Inl KeyError, st)
           | Some secret \<Rightarrow>
               (case get_key E st secret of
                  Inl e \<Rightarrow> (Inl e, st)
                | Inr api_key \<Rightarrow>
                    (case ctx_user c of
                       None \<Rightarrow> (Inl AttributeError, st)
                     | Some user \<Rightarrow>
                         if key_owner api_key \<noteq> username user \<and> \<not> ctx_administrator c
                         then (Inl (PermissionDenied
                                 ''Cannot revoke an API key you do not own.        Please authenticate as the owner of the key to revoke it.''),
                               st)
                         else (Inr Success, remove_key st api_key)))))"

section \<open>The Action API\<close>

text \<open>
  Python's \<open>min(iterable, key=f)\<close>: a \<open>ValueError\<close> on an empty iterable; otherwise the
  running minimum is replaced only by an element whose key is strictly smaller, so the
  first of several minimal elements is returned.
\<close>

fun min_by_key :: "('a \<Rightarrow> 'b::linorder) \<Rightarrow> 'a list \<Rightarrow> error + 'a" where
  "min_by_key f [] = Inl ValueError"
| "min_by_key f (x # xs) = Inr (foldl (\<lambda>m y. if f y < f m then y else m) x xs)"

text \<open>\<open>SESSION_STATUSES.get('active', 'active')\<close>.\<close>

definition active_status :: "env \<Rightarrow> string" where
  "active_status E = (case SESSION_STATUSES E ''active'' of None \<Rightarrow> ''active'' | Some v \<Rightarrow> v)"

text \<open>
  Lines 28 to 35 of \<open>create_action\<close>: the owner is \<open>'No owner'\<close> unless the context has a
  user; a \<open>KeyError\<close> of \<open>get_context\<close> is swallowed, any other exception leaves the
  function.
\<close>

definition action_owner :: "env \<Rightarrow> params \<Rightarrow> error + string" where
  "action_owner E params =
     (case get_context E params of
        Inl e \<Rightarrow> if e = KeyError then Inr ''No owner'' else Inl e
      | Inr c \<Rightarrow>
          (case ctx_user c of
             None \<Rightarrow> Inr ''No owner''
           | Some user \<Rightarrow> Inr (username user)))"

text \<open>
  Lines 49 to 54: the session bound in quick mode. The elements of \<open>target.sessions\<close> are
  \<open>Session\<close> documents, so the test \<open>bound_session and isinstance(bound_session, Session)\<close>
  that follows holds for whatever \<open>min\<close> returns.
\<close>

definition fastest_session :: "env \<Rightarrow> target \<Rightarrow> error + session" where
  "fastest_session E target =
     min_by_key interval (filter (\<lambda>x. status x = active_status E) (sessions target))"

text \<open>
  Modelled from the spec: \<open>Action.update_fields\<close> (the parser's auxiliary fields are
  merged onto the record), the status of an action (\<open>Queued\<close> until it is cancelled or
  retrieved), \<open>Action.document\<close> and \<open>Action.get_by_id\<close> (\<open>NotFound\<close> for an unknown id).
  \<open>Target.get_by_name\<close> is the lookup \<open>targets st\<close>, absent when there is no such target.
\<close>

definition update_fields :: "action \<Rightarrow> parsed_action \<Rightarrow> action" where
  "update_fields a parsed = a\<lparr>aux_fields := pa_fields parsed\<rparr>"

definition status_of :: "action \<Rightarrow> action_status" where
  "status_of a = (if cancelled a then Cancelled else if retrieved a then Retrieved else Queued)"

definition document :: "action \<Rightarrow> action_document" where
  "document a =
     \<lparr>d_action_id = action_id a, d_target_name = target_name a,
      d_action_string = action_string a, d_action_type = action_type a,
      d_bound_session_id = bound_session_id a, d_queue_time = queue_time a,
      d_owner = owner a, d_status = status_of a\<rparr>"

definition get_by_id :: "store \<Rightarrow> string \<Rightarrow> error + action" where
  "get_by_id st i = (case actions st i of None \<Rightarrow> Inl NotFound | Some a \<Rightarrow> Inr a)"

text \<open>
  \<open>create_action\<close>. \<open>params.get('quick', False)\<close> is true for \<open>quick = True\<close> only;
  \<open>str(uuid4())\<close> is the default of \<open>action_id\<close>. With \<open>commit\<close> false the action object
  itself is returned and nothing is saved.
\<close>

definition create_action :: "env \<Rightarrow> store \<Rightarrow> params \<Rightarrow> bool \<Rightarrow> result \<times> store" where
  "create_action E st params commit =
     (case action_owner E params of
        Inl e \<Rightarrow> (Inl e, st)
      | Inr owner_name \<Rightarrow>
     (case p_target_name params of
        None \<Rightarrow> (Inl KeyError, st)
      | Some tname \<Rightarrow>
     (case p_action_string params of
        None \<Rightarrow> (Inl KeyError, st)
      | Some astring \<Rightarrow>
     (case targets st tname of
        None \<Rightarrow> (Inl (CannotBindAction tname), st)
      | Some target \<Rightarrow>
     (case parse_action_string E astring of
        Inl e \<Rightarrow> (Inl e, st)
      | Inr parsed_action \<Rightarrow>
     (case (if p_quick params = Some True
            then (case fastest_session E target of
                    Inl e \<Rightarrow> Inl e
                  | Inr bound_session \<Rightarrow> Inr (Some (session_id bound_session)))
            else Inr (p_bound_session_id params)) of
        Inl e \<Rightarrow> (Inl e, st)
      | Inr bound \<Rightarrow>
          let action =
                update_fields
                  \<lparr>action_id = (case p_action_id params of None \<Rightarrow> uuid4 E 0 | Some i \<Rightarrow> i),
                   target_name = tname,
                   action_string = astring,
                   action_type = pa_action_type parsed_action,
                   bound_session_id = bound,
                   queue_time = time_now E,
                   owner = owner_name,
                   aux_fields = [],
                   cancelled = False,
                   retrieved = False\<rparr>
                  parsed_action
          in if commit
             then (case insert_action st action of
                     Inl e \<Rightarrow> (Inl e, st)
                   | Inr st' \<Rightarrow> (Inr (SuccessActionId (action_id action)), st'))
             else (Inr (UncommittedAction action), st)))))))"

definition get_action :: "env \<Rightarrow> store \<Rightarrow> params \<Rightarrow> result \<times> store" where
  "get_action E st params =
     (case p_action_id params of
        None \<Rightarrow> (Inl KeyError, st)
      | Some i \<Rightarrow>
          (case get_by_id st i of
             Inl e \<Rightarrow> (Inl e, st)
           | Inr action \<Rightarrow> (Inr (SuccessAction (document action)), st)))"

text \<open>The id of the action that a call creates: the caller's \<open>action_id\<close>, or the \<open>uuid4\<close>.\<close>

abbreviation new_action_id :: "env \<Rightarrow> params \<Rightarrow> string" where
  "new_action_id E params \<equiv> (case p_action_id params of None \<Rightarrow> uuid4 E 0 | Some i \<Rightarrow> i)"

section \<open>Concrete collaborators and stores for the examples\<close>

definition demo_parse :: "string \<Rightarrow> error + parsed_action" where
  "demo_parse s =
     (if s = [] then Inl MalformedAction
      else Inr \<lparr>pa_action_type = ''exec'', pa_fields = [(''command'', s)]\<rparr>)"

definition demo_context :: "user \<Rightarrow> string list \<Rightarrow> bool \<Rightarrow> params \<Rightarrow> error + auth_context" where
  "demo_context u ms adm params =
     Inr \<lparr>ctx_user = Some u, ctx_allowed_methods = ms, ctx_administrator = adm\<rparr>"

definition demo_env :: "(params \<Rightarrow> error + auth_context) \<Rightarrow> env" where
  "demo_env gc =
     \<lparr>get_context = gc,
      hash_password = (\<lambda>pw. ''h:'' @ pw),
      verify_password = (\<lambda>pw h. h = ''h:'' @ pw),
      parse_action_string = demo_parse,
      argon2_hash = (\<lambda>pw salt. rev pw @ salt),
      b64encode = (\<lambda>s. s),
      API_KEY_SALT = ''salt'',
      SESSION_STATUSES = Map.empty,
      uuid4 = (\<lambda>n. ''00000000-0000-4000-8000-00000000000'' @ [if even n then CHR ''a'' else CHR ''b'']),
      time_now = 1000\<rparr>"

definition alice :: user where
  "alice = \<lparr>username = ''alice'', password = ''h:secret'', administrator = False\<rparr>"

definition root :: user where
  "root = \<lparr>username = ''root'', password = ''h:toor'', administrator = True\<rparr>"

definition bob :: user where
  "bob = \<lparr>username = ''bob'', password = ''h:hunter2'', administrator = False\<rparr>"

definition empty_store :: store where
  "empty_store =
     \<lparr>users = Map.empty, api_keys = Map.empty, roles = Map.empty,
      targets = Map.empty, actions = Map.empty\<rparr>"

definition user_store :: store where
  "user_store =
     empty_store\<lparr>users := [''alice'' \<mapsto> alice, ''bob'' \<mapsto> bob, ''root'' \<mapsto> root]\<rparr>"

text \<open>
  A key of \<open>alice\<close> whose secret is \<open>rawsecret\<close>, stored under the hash that the
  example collaborators give for it.
\<close>

definition alice_key :: api_key where
  "alice_key =
     \<lparr>key = ''salt$terceswarsalt'', key_owner = ''alice'',
      key_allowed_api_calls = [''get_action'']\<rparr>"

definition key_store :: store where
  "key_store = user_store\<lparr>api_keys := [''salt$terceswarsalt'' \<mapsto> alice_key]\<rparr>"

text \<open>
  A target with three sessions (intervals 5, 2 and 8, the last one inactive) and a target
  whose only session is inactive.
\<close>

definition web01 :: target where
  "web01 =
     \<lparr>t_name = ''web01'',
      sessions =
        [\<lparr>session_id = ''s-slow'', status = ''active'', interval = 5\<rparr>,
         \<lparr>session_id = ''s-fast'', status = ''active'', interval = 2\<rparr>,
         \<lparr>session_id = ''s-gone'', status = ''inactive'', interval = 8\<rparr>]\<rparr>"

definition db01 :: target where
  "db01 =
     \<lparr>t_name = ''db01'',
      sessions = [\<lparr>session_id = ''s-old'', status = ''inactive'', interval = 1\<rparr>]\<rparr>"

definition target_store :: store where
  "target_store = user_store\<lparr>targets := [''web01'' \<mapsto> web01, ''db01'' \<mapsto> db01]\<rparr>"

section \<open>Properties of create_user\<close>

text \<open>
  C10. Every user record created through \<open>create_user\<close> has its administrator flag set
  to \<open>False\<close> and its stored password equal to the hash of the supplied plaintext: when
  the call succeeds, the record stored under the supplied username is exactly the
  non-administrator record with the hashed password, and every other user record of the
  store is as it was, so the call cannot create an administrator account.
\<close>

theorem create_user_never_administrator:
  assumes "create_user E st params = (Inr r, st')"
  shows "\<exists>un pw. p_username params = Some un \<and> p_password params = Some pw \<and>
           users st' un =
             Some \<lparr>username = un, password = hash_password E pw, administrator = False\<rparr> \<and>
           (\<forall>n. n \<noteq> un \<longrightarrow> users st' n = users st n)"
  using assms
  by (auto simp: create_user_def insert_user_def Let_def
           split: option.splits if_splits sum.splits)

theorem create_user_never_administrator_witness:
  "create_user (demo_env (demo_context root [''*''] True)) empty_store
     (no_params\<lparr>p_username := Some ''bob'', p_password := Some ''pw''\<rparr>)
   = (Inr Success,
      empty_store\<lparr>users := [''bob'' \<mapsto>
        \<lparr>username = ''bob'', password = ''h:pw'', administrator = False\<rparr>]\<rparr>)
   \<and> users (snd (create_user (demo_env (demo_context root [''*''] True)) empty_store
        (no_params\<lparr>p_username := Some ''bob'', p_password := Some ''pw''\<rparr>))) ''bob''
     = Some \<lparr>username = ''bob'', password = ''h:pw'', administrator = False\<rparr>"
proof -
  let ?E = "demo_env (demo_context root [''*''] True)"
  let ?p = "no_params\<lparr>p_username := Some ''bob'', p_password := Some ''pw''\<rparr>"
  have run: "create_user ?E empty_store ?p
     = (Inr Success,
        empty_store\<lparr>users := [''bob'' \<mapsto>
          \<lparr>username = ''bob'', password = ''h:pw'', administrator = False\<rparr>]\<rparr>)"
    by (simp add: create_user_def insert_user_def demo_env_def no_params_def empty_store_def)
  from create_user_never_administrator [OF run]
  show ?thesis using run by (simp add: demo_env_def)
qed

section \<open>Properties of create_api_key\<close>

text \<open>
  C1. For every \<open>create_api_key\<close> request of a resolved issuer (the hash of the fresh
  secret not being a key of the store already): if \<open>allowed_api_calls\<close> is omitted or
  empty, the call succeeds and the created key's permission set is the issuer's full
  effective permission set; if it is non-empty, the call succeeds (storing the requested
  set) exactly when every requested operation is a member of the issuer's effective set or
  that set contains the wildcard \<open>*\<close>, and otherwise it fails with \<open>PermissionDenied\<close>
  and leaves the store as it was.
\<close>

theorem create_api_key_delegation:
  assumes ctx: "get_context E params = Inr c" "ctx_user c = Some u"
    and fresh: "api_keys st (API_KEY_SALT E @ ''$'' @ mid_hash E (original_key E)) = None"
  shows "(p_allowed_api_calls params = None \<or> p_allowed_api_calls params = Some [] \<longrightarrow>
            (\<exists>st'. create_api_key E st params = (Inr (SuccessApiKey (original_key E)), st') \<and>
               map_option key_allowed_api_calls
                 (api_keys st' (API_KEY_SALT E @ ''$'' @ mid_hash E (original_key E)))
               = Some (ctx_allowed_methods c)))
       \<and> (\<forall>calls. p_allowed_api_calls params = Some calls \<and> calls \<noteq> [] \<longrightarrow>
            (if set calls \<subseteq> set (ctx_allowed_methods c) \<or> ''*'' \<in> set (ctx_allowed_methods c)
             then \<exists>st'. create_api_key E st params = (Inr (SuccessApiKey (original_key E)), st') \<and>
               map_option key_allowed_api_calls
                 (api_keys st' (API_KEY_SALT E @ ''$'' @ mid_hash E (original_key E)))
               = Some calls
             else create_api_key E st params = (Inl (PermissionDenied
                    ''Cannot create API key with more permissions than key owner.''), st)))"
  using assms
  by (auto simp: create_api_key_def insert_api_key_def Let_def list_ex_iff
           split: option.splits if_splits sum.splits)

theorem create_api_key_delegation_witness:
  "(\<exists>st'. create_api_key (demo_env (demo_context alice [''get_action'', ''list_actions''] False))
            empty_store (no_params\<lparr>p_allowed_api_calls := Some [''get_action'']\<rparr>)
          = (Inr (SuccessApiKey
               (original_key (demo_env (demo_context alice [''get_action'', ''list_actions''] False)))),
             st') \<and>
          map_option key_allowed_api_calls
            (api_keys st' (''salt$'' @
               mid_hash (demo_env (demo_context alice [''get_action'', ''list_actions''] False))
                 (original_key (demo_env (demo_context alice [''get_action'', ''list_actions''] False)))))
          = Some [''get_action''])
   \<and> create_api_key (demo_env (demo_context alice [''list_actions''] False))
         empty_store (no_params\<lparr>p_allowed_api_calls := Some [''get_action'']\<rparr>)
       = (Inl (PermissionDenied
                 ''Cannot create API key with more permissions than key owner.''),
          empty_store)"
proof -
  let ?E1 = "demo_env (demo_context alice [''get_action'', ''list_actions''] False)"
  let ?E2 = "demo_env (demo_context alice [''list_actions''] False)"
  let ?p = "no_params\<lparr>p_allowed_api_calls := Some [''get_action'']\<rparr>"
  have c1: "get_context ?E1 ?p = Inr \<lparr>ctx_user = Some alice,
              ctx_allowed_methods = [''get_action'', ''list_actions''],
              ctx_administrator = False\<rparr>"
    by (simp add: demo_env_def demo_context_def)
  have c2: "get_context ?E2 ?p = Inr \<lparr>ctx_user = Some alice,
              ctx_allowed_methods = [''list_actions''],
              ctx_administrator = False\<rparr>"
    by (simp add: demo_env_def demo_context_def)
  have calls: "p_allowed_api_calls ?p = Some [''get_action''] \<and> [''get_action''] \<noteq> []"
    by simp
  have f1: "api_keys empty_store (API_KEY_SALT ?E1 @ ''$'' @ mid_hash ?E1 (original_key ?E1)) = None"
    by (simp add: empty_store_def)
  have f2: "api_keys empty_store (API_KEY_SALT ?E2 @ ''$'' @ mid_hash ?E2 (original_key ?E2)) = None"
    by (simp add: empty_store_def)
  have salt: "API_KEY_SALT ?E1 = ''salt''"
    by (simp add: demo_env_def)
  from create_api_key_delegation [OF c1 _ f1] calls
  have a: "\<exists>st'. create_api_key ?E1 empty_store ?p
             = (Inr (SuccessApiKey (original_key ?E1)), st') \<and>
           map_option key_allowed_api_calls
             (api_keys st' (API_KEY_SALT ?E1 @ ''$'' @ mid_hash ?E1 (original_key ?E1)))
           = Some [''get_action'']"
    by simp
  from create_api_key_delegation [OF c2 _ f2] calls
  have b: "create_api_key ?E2 empty_store ?p
       = (Inl (PermissionDenied
                 ''Cannot create API key with more permissions than key owner.''),
          empty_store)"
    by simp
  from a b show ?thesis
    by (simp add: salt)
qed

subsection \<open>What a successful call stores\<close>










section \<open>Properties of revoke_api_key\<close>

text \<open>
  C9. For every \<open>revoke_api_key\<close> request on an existing key by a resolved caller: if
  the caller is neither the key's owner nor an administrator, the call fails with
  \<open>PermissionDenied\<close> and the store, with the key record in it, is unchanged; otherwise
  the key record is removed and the call returns success.
\<close>

theorem revoke_api_key_owner_or_admin:
  assumes "get_context E params = Inr c" "ctx_user c = Some u"
    and "p_api_key params = Some secret" "get_key E st secret = Inr k"
  shows "revoke_api_key E st params =
          (if key_owner k \<noteq> username u \<and> \<not> ctx_administrator c
           then (Inl (PermissionDenied
                   ''Cannot revoke an API key you do not own.        Please authenticate as the owner of the key to revoke it.''), st)
           else (Inr Success, st\<lparr>api_keys := (api_keys st)(key k := None)\<rparr>))"
  using assms by (simp add: revoke_api_key_def remove_key_def)

theorem revoke_api_key_owner_or_admin_witness:
  "revoke_api_key (demo_env (demo_context bob [''revoke_api_key''] False)) key_store
     (no_params\<lparr>p_api_key := Some ''rawsecret''\<rparr>)
   = (Inl (PermissionDenied
        ''Cannot revoke an API key you do not own.        Please authenticate as the owner of the key to revoke it.''),
      key_store)
   \<and> api_keys key_store ''salt$terceswarsalt'' = Some alice_key
   \<and> revoke_api_key (demo_env (demo_context alice [''revoke_api_key''] False)) key_store
       (no_params\<lparr>p_api_key := Some ''rawsecret''\<rparr>)
     = (Inr Success, key_store\<lparr>api_keys := (api_keys key_store)(''salt$terceswarsalt'' := None)\<rparr>)
   \<and> revoke_api_key (demo_env (demo_context root [''*''] True)) key_store
       (no_params\<lparr>p_api_key := Some ''rawsecret''\<rparr>)
     = (Inr Success, key_store\<lparr>api_keys := (api_keys key_store)(''salt$terceswarsalt'' := None)\<rparr>)"
proof -
  let ?p = "no_params\<lparr>p_api_key := Some ''rawsecret''\<rparr>"
  let ?Eb = "demo_env (demo_context bob [''revoke_api_key''] False)"
  let ?Ea = "demo_env (demo_context alice [''revoke_api_key''] False)"
  let ?Er = "demo_env (demo_context root [''*''] True)"
  have cb: "get_context ?Eb ?p = Inr \<lparr>ctx_user = Some bob,
              ctx_allowed_methods = [''revoke_api_key''], ctx_administrator = False\<rparr>"
    by (simp add: demo_env_def demo_context_def)
  have ca: "get_context ?Ea ?p = Inr \<lparr>ctx_user = Some alice,
              ctx_allowed_methods = [''revoke_api_key''], ctx_administrator = False\<rparr>"
    by (simp add: demo_env_def demo_context_def)
  have cr: "get_context ?Er ?p = Inr \<lparr>ctx_user = Some root,
              ctx_allowed_methods = [''*''], ctx_administrator = True\<rparr>"
    by (simp add: demo_env_def demo_context_def)
  have pk: "p_api_key ?p = Some ''rawsecret''"
    by simp
  have stored: "api_keys key_store ''salt$terceswarsalt'' = Some alice_key"
    by (simp add: key_store_def)
  have gk: "get_key (demo_env gc) key_store ''rawsecret'' = Inr alice_key" for gc
    by (simp add: get_key_def mid_hash_def demo_env_def key_store_def)
  have kk: "key alice_key = ''salt$terceswarsalt''" "key_owner alice_key = ''alice''"
    by (simp_all add: alice_key_def)
  have un: "username bob = ''bob''" "username alice = ''alice''" "username root = ''root''"
    by (simp_all add: bob_def alice_def root_def)
  from revoke_api_key_owner_or_admin [OF cb _ pk gk, of bob]
  have 1: "revoke_api_key ?Eb key_store ?p
   = (Inl (PermissionDenied
        ''Cannot revoke an API key you do not own.        Please authenticate as the owner of the key to revoke it.''),
      key_store)"
    by (simp add: kk un)
  from revoke_api_key_owner_or_admin [OF ca _ pk gk, of alice]
  have 2: "revoke_api_key ?Ea key_store ?p
     = (Inr Success, key_store\<lparr>api_keys := (api_keys key_store)(''salt$terceswarsalt'' := None)\<rparr>)"
    by (simp add: kk un)
  from revoke_api_key_owner_or_admin [OF cr _ pk gk, of root]
  have 3: "revoke_api_key ?Er key_store ?p
     = (Inr Success, key_store\<lparr>api_keys := (api_keys key_store)(''salt$terceswarsalt'' := None)\<rparr>)"
    by (simp add: kk un)
  from 1 stored 2 3 show ?thesis by (intro conjI)
qed

section \<open>Properties of update_user_password\<close>

text \<open>
  C7, as amended. For every \<open>update_user_password\<close> request whose resolved context
  reports administrator and whose resolved user is not an administrator account, the
  user's password is set to the hash of \<open>new_password\<close> without \<open>current_password\<close>
  being read, and the call returns success.
\<close>

theorem update_user_password_admin_override:
  assumes "get_context E params = Inr c" "ctx_user c = Some u"
    and "ctx_administrator c" "\<not> administrator u"
    and "p_new_password params = Some new_password"
  shows "update_user_password E st params =
          (Inr Success,
           st\<lparr>users := (users st)(username u \<mapsto> u\<lparr>password := hash_password E new_password\<rparr>)\<rparr>)"
  using assms by (simp add: update_user_password_def save_user_def)

theorem update_user_password_admin_override_witness:
  "update_user_password (demo_env (demo_context alice [] True)) user_store
     (no_params\<lparr>p_new_password := Some ''fresh''\<rparr>)
   = (Inr Success,
      user_store\<lparr>users := (users user_store)(''alice'' \<mapsto>
         \<lparr>username = ''alice'', password = ''h:fresh'', administrator = False\<rparr>)\<rparr>)"
proof -
  let ?E = "demo_env (demo_context alice [] True)"
  let ?p = "no_params\<lparr>p_new_password := Some ''fresh''\<rparr>"
  have c: "get_context ?E ?p = Inr \<lparr>ctx_user = Some alice,
              ctx_allowed_methods = [], ctx_administrator = True\<rparr>"
    by (simp add: demo_env_def demo_context_def)
  have np: "p_new_password ?p = Some ''fresh''"
    by simp
  have na: "\<not> administrator alice"
    by (simp add: alice_def)
  from update_user_password_admin_override [OF c _ _ na np, of user_store]
  show ?thesis
    by (simp add: alice_def demo_env_def)
qed

text \<open>
  The claim as stated fails where the resolved user is itself an administrator account:
  the source allows the override for a non-admin user only, so an administrator context
  on \<open>root\<close> still needs \<open>current_password\<close> (a \<open>KeyError\<close> without it) and needs it
  to verify; the stored password stays as it was.
\<close>

theorem update_user_password_admin_counterexample:
  "get_context (demo_env (demo_context root [''*''] True))
       (no_params\<lparr>p_new_password := Some ''fresh''\<rparr>)
     = Inr \<lparr>ctx_user = Some root, ctx_allowed_methods = [''*''], ctx_administrator = True\<rparr>
   \<and> update_user_password (demo_env (demo_context root [''*''] True)) user_store
       (no_params\<lparr>p_new_password := Some ''fresh''\<rparr>)
     = (Inl KeyError, user_store)
   \<and> update_user_password (demo_env (demo_context root [''*''] True)) user_store
       (no_params\<lparr>p_new_password := Some ''fresh'', p_current_password := Some ''guess''\<rparr>)
     = (Inl AuthenticationFailed, user_store)
   \<and> users user_store ''root'' = Some root \<and> password root \<noteq> ''h:fresh''"
  by (simp add: update_user_password_def update_password_def demo_env_def demo_context_def
        no_params_def root_def user_store_def)

section \<open>Properties of create_role\<close>

text \<open>
  The lookup \<open>params.get(users)\<close> raises before any role is built, so no call of
  \<open>create_role\<close> returns a success response.
\<close>

lemma create_role_never_succeeds:
  "fst (create_role E st params) \<noteq> Inr r"
  by (simp add: create_role_def params_get_list_key_def split: option.splits)

text \<open>
  C6. A valid \<open>create_role\<close> request (a fresh name, a permission list and a users list
  naming an existing user) ought to persist the role with these members and return a
  success ack. On this request the code raises \<open>TypeError\<close> and stores no role.
\<close>

theorem create_role_failing_input:
  "create_role (demo_env (demo_context root [''*''] True)) user_store
     (no_params\<lparr>p_name := Some ''operators'',
                 p_allowed_api_calls := Some [''get_action''],
                 p_users := Some [''alice'']\<rparr>)
   = (Inl TypeError, user_store)
   \<and> roles user_store ''operators'' = None"
  by (simp add: create_role_def params_get_list_key_def no_params_def user_store_def
        empty_store_def)

section \<open>Properties of min with a key\<close>

lemma foldl_min_le_init:
  "f (foldl (\<lambda>m y. if f y < f m then y else m) x xs) \<le> (f x :: 'b::linorder)"
proof (induction xs arbitrary: x)
  case Nil
  show ?case by simp
next
  case (Cons a xs)
  have "f (foldl (\<lambda>m y. if f y < f m then y else m) (if f a < f x then a else x) xs)
          \<le> f (if f a < f x then a else x)"
    by (rule Cons.IH)
  also have "\<dots> \<le> f x" by (simp add: less_imp_le)
  finally show ?case by simp
qed

lemma foldl_min_mem:
  "foldl (\<lambda>m y. if f y < f m then y else m) x xs \<in> insert x (set xs)"
proof (induction xs arbitrary: x)
  case Nil
  show ?case by simp
next
  case (Cons a xs)
  from Cons.IH [of "if f a < f x then a else x"] show ?case
    by (auto split: if_splits)
qed

lemma foldl_min_le:
  "y \<in> set xs \<Longrightarrow> f (foldl (\<lambda>m y. if f y < f m then y else m) x xs) \<le> (f y :: 'b::linorder)"
proof (induction xs arbitrary: x)
  case Nil
  then show ?case by simp
next
  case (Cons a xs)
  let ?x' = "if f a < f x then a else x"
  show ?case
  proof (cases "y = a")
    case True
    have "f (foldl (\<lambda>m y. if f y < f m then y else m) ?x' xs) \<le> f ?x'"
      by (rule foldl_min_le_init)
    also have "\<dots> \<le> f a" by (simp add: not_less)
    finally show ?thesis using True by simp
  next
    case False
    with Cons.prems have "y \<in> set xs" by simp
    from Cons.IH [OF this, of ?x'] show ?thesis by simp
  qed
qed

lemma min_by_key_minimal:
  assumes "xs \<noteq> []"
  shows "\<exists>m. min_by_key f xs = Inr m \<and> m \<in> set xs \<and> (\<forall>y\<in>set xs. f m \<le> (f y :: 'b::linorder))"
proof (cases xs)
  case Nil
  with assms show ?thesis by simp
next
  case (Cons x rest)
  let ?m = "foldl (\<lambda>m y. if f y < f m then y else m) x rest"
  have 1: "min_by_key f xs = Inr ?m" using Cons by simp
  have 2: "?m \<in> set xs" using foldl_min_mem [of f x rest] Cons by simp
  have 3: "\<forall>y\<in>set xs. f ?m \<le> f y"
  proof
    fix y assume "y \<in> set xs"
    then have "y = x \<or> y \<in> set rest" using Cons by simp
    then show "f ?m \<le> f y"
      using foldl_min_le_init [of f x rest] foldl_min_le [of y rest f x] by blast
  qed
  from 1 2 3 show ?thesis by blast
qed

section \<open>Properties of create_action\<close>

text \<open>
  In the theorems below a request is one whose context resolution does not abort the
  call (it returns, or raises the \<open>KeyError\<close> that \<open>create_action\<close> swallows) and which
  carries the required \<open>action_string\<close>.
\<close>

lemma action_owner_ok:
  assumes "\<forall>e. get_context E params = Inl e \<longrightarrow> e = KeyError"
  shows "\<exists>n. action_owner E params = Inr n"
  using assms
  by (cases "get_context E params") (simp_all add: action_owner_def split: option.splits)

text \<open>Facts about the example collaborators.\<close>

lemma demo_context_resolves:
  "\<forall>e. get_context (demo_env (demo_context u ms adm)) params = Inl e \<longrightarrow> e = KeyError"
  by (simp add: demo_env_def demo_context_def)

lemma demo_active_status: "active_status (demo_env gc) = ''active''"
  by (simp add: active_status_def demo_env_def)

lemma demo_parse_exec:
  "parse_action_string (demo_env gc) ''exec ls''
     = Inr \<lparr>pa_action_type = ''exec'', pa_fields = [(''command'', ''exec ls'')]\<rparr>"
  by (simp add: demo_env_def demo_parse_def)

text \<open>
  C4. For every \<open>create_action\<close> request whose \<open>target_name\<close> does not reference an
  existing target, the operation fails with \<open>CannotBindAction\<close> (naming the target) and
  no action record is persisted: the store is unchanged, with and without \<open>commit\<close>.
\<close>

theorem create_action_unknown_target:
  assumes "p_target_name params = Some t"
    and "targets st t = None"
    and "p_action_string params = Some a"
    and "\<forall>e. get_context E params = Inl e \<longrightarrow> e = KeyError"
  shows "create_action E st params commit = (Inl (CannotBindAction t), st)"
proof -
  from action_owner_ok [OF assms(4)] obtain n where "action_owner E params = Inr n" ..
  with assms(1-3) show ?thesis
    by (simp add: create_action_def)
qed

theorem create_action_unknown_target_witness:
  "create_action (demo_env (demo_context alice [''create_action''] False)) target_store
     (no_params\<lparr>p_target_name := Some ''ghost'', p_action_string := Some ''exec ls''\<rparr>) True
   = (Inl (CannotBindAction ''ghost''), target_store)"
proof -
  let ?p = "no_params\<lparr>p_target_name := Some ''ghost'', p_action_string := Some ''exec ls''\<rparr>"
  have 1: "p_target_name ?p = Some ''ghost''" by simp
  have 2: "targets target_store ''ghost'' = None" by (simp add: target_store_def)
  have 3: "p_action_string ?p = Some ''exec ls''" by simp
  from create_action_unknown_target [OF 1 2 3 demo_context_resolves]
  show ?thesis .
qed

text \<open>
  With \<open>quick\<close> set, the session is selected by \<open>min\<close> over the active sessions of
  the target, with no default. When the target has no active session the sequence is
  empty and \<open>min\<close> raises \<open>ValueError\<close>; the test \<open>if bound_session and ...\<close> that
  follows the selection is never reached, and nothing is built or saved.
\<close>

lemma create_action_quick_min_raises:
  assumes "p_target_name params = Some t"
    and "targets st t = Some T"
    and "filter (\<lambda>x. status x = active_status E) (sessions T) = []"
    and "p_quick params = Some True"
    and "p_action_string params = Some a"
    and "parse_action_string E a = Inr parsed"
    and "\<forall>e. get_context E params = Inl e \<longrightarrow> e = KeyError"
  shows "create_action E st params commit = (Inl ValueError, st)"
proof -
  from action_owner_ok [OF assms(7)] obtain n where "action_owner E params = Inr n" ..
  moreover have "fastest_session E T = Inl ValueError"
    by (simp add: fastest_session_def assms(3))
  ultimately show ?thesis
    using assms(1,2,4,5,6) by (simp add: create_action_def)
qed

text \<open>
  C2. A \<open>create_action\<close> request with \<open>quick\<close> true addressed to an existing target that
  has no session with status active ought to fail with \<open>NoActiveSession\<close>, with no
  action record persisted. On the target \<open>db01\<close>, whose only session is inactive, the
  code does not report \<open>NoActiveSession\<close>: the unguarded \<open>min\<close> raises \<open>ValueError\<close>,
  with and without \<open>commit\<close>. The store is unchanged.
\<close>

theorem create_action_quick_failing_input:
  "targets target_store ''db01'' = Some db01
   \<and> filter (\<lambda>x. status x = ''active'') (sessions db01) = []
   \<and> create_action (demo_env (demo_context alice [''create_action''] False)) target_store
       (no_params\<lparr>p_target_name := Some ''db01'', p_action_string := Some ''exec ls'',
                   p_quick := Some True\<rparr>) True
     = (Inl ValueError, target_store)
   \<and> create_action (demo_env (demo_context alice [''create_action''] False)) target_store
       (no_params\<lparr>p_target_name := Some ''db01'', p_action_string := Some ''exec ls'',
                   p_quick := Some True\<rparr>) False
     = (Inl ValueError, target_store)
   \<and> fst (create_action (demo_env (demo_context alice [''create_action''] False)) target_store
       (no_params\<lparr>p_target_name := Some ''db01'', p_action_string := Some ''exec ls'',
                   p_quick := Some True\<rparr>) True)
     \<noteq> Inl NoActiveSession"
  by (simp add: create_action_def action_owner_def fastest_session_def active_status_def
        demo_env_def demo_context_def demo_parse_def no_params_def target_store_def db01_def)

subsection \<open>Successful creation\<close>

lemma create_action_commits:
  assumes "action_owner E params = Inr n"
    and "p_target_name params = Some t"
    and "p_action_string params = Some a"
    and "targets st t = Some T"
    and "parse_action_string E a = Inr parsed"
    and "(if p_quick params = Some True
          then (case fastest_session E T of
                  Inl e \<Rightarrow> Inl e
                | Inr bound_session \<Rightarrow> Inr (Some (session_id bound_session)))
          else Inr (p_bound_session_id params)) = Inr bound"
    and "actions st (new_action_id E params) = None"
  shows "create_action E st params True =
           (Inr (SuccessActionId (new_action_id E params)),
            st\<lparr>actions := (actions st)(new_action_id E params \<mapsto>
              \<lparr>action_id = new_action_id E params, target_name = t, action_string = a,
               action_type = pa_action_type parsed, bound_session_id = bound,
               queue_time = time_now E, owner = n, aux_fields = pa_fields parsed,
               cancelled = False, retrieved = False\<rparr>)\<rparr>)"
  using assms
  by (simp add: create_action_def insert_action_def update_fields_def Let_def)

text \<open>
  C3. For every \<open>create_action\<close> request with \<open>quick\<close> true addressed to an existing
  target having at least one active session (the action string parsing and the action
  id being fresh), the action is created and its \<open>bound_session_id\<close> is the
  \<open>session_id\<close> of a session of the target with status active whose interval is
  minimal among the target's active sessions, whatever \<open>bound_session_id\<close> the request
  supplies.
\<close>

theorem create_action_quick_binds_fastest:
  assumes tn: "p_target_name params = Some t"
    and tg: "targets st t = Some T"
    and act: "filter (\<lambda>x. status x = active_status E) (sessions T) \<noteq> []"
    and q: "p_quick params = Some True"
    and as: "p_action_string params = Some a"
    and pa: "parse_action_string E a = Inr parsed"
    and ctx: "\<forall>e. get_context E params = Inl e \<longrightarrow> e = KeyError"
    and fresh: "actions st (new_action_id E params) = None"
  shows "\<exists>s st'. s \<in> set (sessions T) \<and> status s = active_status E \<and>
           (\<forall>s'\<in>set (sessions T). status s' = active_status E \<longrightarrow> interval s \<le> interval s') \<and>
           create_action E st params True = (Inr (SuccessActionId (new_action_id E params)), st') \<and>
           map_option bound_session_id (actions st' (new_action_id E params))
             = Some (Some (session_id s))"
proof -
  from action_owner_ok [OF ctx] obtain n where n: "action_owner E params = Inr n" ..
  from min_by_key_minimal [OF act, of interval] obtain m
    where m: "fastest_session E T = Inr m"
      and mem: "m \<in> set (filter (\<lambda>x. status x = active_status E) (sessions T))"
      and least: "\<forall>y\<in>set (filter (\<lambda>x. status x = active_status E) (sessions T)).
                    interval m \<le> interval y"
    unfolding fastest_session_def by blast
  have bound: "(if p_quick params = Some True
          then (case fastest_session E T of
                  Inl e \<Rightarrow> Inl e
                | Inr bound_session \<Rightarrow> Inr (Some (session_id bound_session)))
          else Inr (p_bound_session_id params)) = Inr (Some (session_id m))"
    by (simp add: q m)
  note run = create_action_commits [OF n tn as tg pa bound fresh]
  have 1: "m \<in> set (sessions T)" and 2: "status m = active_status E"
    using mem by simp_all
  have 3: "\<forall>s'\<in>set (sessions T). status s' = active_status E \<longrightarrow> interval m \<le> interval s'"
    using least by simp
  have 4: "map_option bound_session_id
             ((actions (snd (create_action E st params True))) (new_action_id E params))
           = Some (Some (session_id m))"
    by (simp add: run)
  show ?thesis
    apply (rule exI [where x = m])
    apply (rule exI [where x = "snd (create_action E st params True)"])
    apply (intro conjI)
        apply (rule 1)
       apply (rule 2)
      apply (rule 3)
     apply (simp add: run)
    apply (rule 4)
    done
qed

theorem create_action_quick_binds_fastest_witness:
  "(\<exists>s st'. s \<in> set (sessions web01) \<and> status s = ''active'' \<and>
       (\<forall>s'\<in>set (sessions web01). status s' = ''active'' \<longrightarrow> interval s \<le> interval s') \<and>
       create_action (demo_env (demo_context alice [''create_action''] False)) target_store
         (no_params\<lparr>p_target_name := Some ''web01'', p_action_string := Some ''exec ls'',
                     p_bound_session_id := Some ''s-slow'', p_action_id := Some ''a1'',
                     p_quick := Some True\<rparr>) True
         = (Inr (SuccessActionId ''a1''), st') \<and>
       map_option bound_session_id (actions st' ''a1'') = Some (Some (session_id s)))
   \<and> map_option bound_session_id
        (actions (snd (create_action (demo_env (demo_context alice [''create_action''] False))
           target_store
           (no_params\<lparr>p_target_name := Some ''web01'', p_action_string := Some ''exec ls'',
                       p_bound_session_id := Some ''s-slow'', p_action_id := Some ''a1'',
                       p_quick := Some True\<rparr>) True)) ''a1'')
      = Some (Some ''s-fast'')"
proof -
  let ?E = "demo_env (demo_context alice [''create_action''] False)"
  let ?p = "no_params\<lparr>p_target_name := Some ''web01'', p_action_string := Some ''exec ls'',
                     p_bound_session_id := Some ''s-slow'', p_action_id := Some ''a1'',
                     p_quick := Some True\<rparr>"
  have 1: "p_target_name ?p = Some ''web01''" by simp
  have 2: "targets target_store ''web01'' = Some web01" by (simp add: target_store_def)
  have 3: "filter (\<lambda>x. status x = active_status ?E) (sessions web01) \<noteq> []"
    by (simp add: demo_active_status web01_def)
  have 4: "p_quick ?p = Some True" by simp
  have 5: "p_action_string ?p = Some ''exec ls''" by simp
  have 6: "actions target_store (new_action_id ?E ?p) = None"
    by (simp add: target_store_def user_store_def empty_store_def)
  have a: "new_action_id ?E ?p = ''a1''" by simp
  from create_action_quick_binds_fastest
         [OF 1 2 3 4 5 demo_parse_exec demo_context_resolves 6]
  have first: "\<exists>s st'. s \<in> set (sessions web01) \<and> status s = ''active'' \<and>
       (\<forall>s'\<in>set (sessions web01). status s' = ''active'' \<longrightarrow> interval s \<le> interval s') \<and>
       create_action ?E target_store ?p True = (Inr (SuccessActionId ''a1''), st') \<and>
       map_option bound_session_id (actions st' ''a1'') = Some (Some (session_id s))"
    unfolding a demo_active_status .
  have second: "map_option bound_session_id
        (actions (snd (create_action ?E target_store ?p True)) ''a1'') = Some (Some ''s-fast'')"
    by (simp add: create_action_def action_owner_def fastest_session_def active_status_def
          insert_action_def update_fields_def Let_def alice_def
          demo_env_def demo_context_def demo_parse_def no_params_def target_store_def
          user_store_def empty_store_def web01_def)
  from first second show ?thesis by (rule conjI)
qed

text \<open>
  C5. For every valid \<open>target_name\<close> and \<open>action_string\<close> (the target exists, the action
  string parses; the action id is fresh, and a quick request finds an active session),
  \<open>create_action\<close> succeeds and \<open>get_action\<close> on the returned \<open>action_id\<close> yields an
  action document whose \<open>target_name\<close> and \<open>action_string\<close> equal the inputs and whose
  status is \<open>Queued\<close>.
\<close>

theorem create_then_get_action:
  assumes tn: "p_target_name params = Some t"
    and tg: "targets st t = Some T"
    and as: "p_action_string params = Some a"
    and pa: "parse_action_string E a = Inr parsed"
    and ctx: "\<forall>e. get_context E params = Inl e \<longrightarrow> e = KeyError"
    and q: "p_quick params = Some True \<longrightarrow>
              filter (\<lambda>x. status x = active_status E) (sessions T) \<noteq> []"
    and fresh: "actions st (new_action_id E params) = None"
  shows "\<exists>st' d. create_action E st params True
                    = (Inr (SuccessActionId (new_action_id E params)), st') \<and>
           get_action E st' (no_params\<lparr>p_action_id := Some (new_action_id E params)\<rparr>)
             = (Inr (SuccessAction d), st') \<and>
           d_target_name d = t \<and> d_action_string d = a \<and> d_status d = Queued"
proof -
  from action_owner_ok [OF ctx] obtain n where n: "action_owner E params = Inr n" ..
  have "\<exists>bound. (if p_quick params = Some True
          then (case fastest_session E T of
                  Inl e \<Rightarrow> Inl e
                | Inr bound_session \<Rightarrow> Inr (Some (session_id bound_session)))
          else Inr (p_bound_session_id params)) = Inr bound"
  proof (cases "p_quick params = Some True")
    case True
    with q have "filter (\<lambda>x. status x = active_status E) (sessions T) \<noteq> []" by simp
    from min_by_key_minimal [OF this, of interval] obtain m
      where "fastest_session E T = Inr m"
      unfolding fastest_session_def by blast
    with True show ?thesis by simp
  next
    case False
    then show ?thesis by simp
  qed
  then obtain bound where bound: "(if p_quick params = Some True
          then (case fastest_session E T of
                  Inl e \<Rightarrow> Inl e
                | Inr bound_session \<Rightarrow> Inr (Some (session_id bound_session)))
          else Inr (p_bound_session_id params)) = Inr bound" ..
  note run = create_action_commits [OF n tn as tg pa bound fresh]
  let ?act = "\<lparr>action_id = new_action_id E params, target_name = t, action_string = a,
               action_type = pa_action_type parsed, bound_session_id = bound,
               queue_time = time_now E, owner = n, aux_fields = pa_fields parsed,
               cancelled = False, retrieved = False\<rparr>"
  let ?st' = "st\<lparr>actions := (actions st)(new_action_id E params \<mapsto> ?act)\<rparr>"
  have get: "get_action E ?st' (no_params\<lparr>p_action_id := Some (new_action_id E params)\<rparr>)
             = (Inr (SuccessAction (document ?act)), ?st')"
    by (simp add: get_action_def get_by_id_def)
  have doc: "d_target_name (document ?act) = t" "d_action_string (document ?act) = a"
       "d_status (document ?act) = Queued"
    by (simp_all add: document_def status_of_def)
  from run get doc show ?thesis by blast
qed

theorem create_then_get_action_witness:
  "\<exists>st' d. create_action (demo_env (demo_context alice [''create_action''] False)) target_store
          (no_params\<lparr>p_target_name := Some ''web01'', p_action_string := Some ''exec ls''\<rparr>) True
        = (Inr (SuccessActionId
            (uuid4 (demo_env (demo_context alice [''create_action''] False)) 0)), st') \<and>
      get_action (demo_env (demo_context alice [''create_action''] False)) st'
          (no_params\<lparr>p_action_id :=
             Some (uuid4 (demo_env (demo_context alice [''create_action''] False)) 0)\<rparr>)
        = (Inr (SuccessAction d), st') \<and>
      d_target_name d = ''web01'' \<and> d_action_string d = ''exec ls'' \<and> d_status d = Queued"
proof -
  let ?E = "demo_env (demo_context alice [''create_action''] False)"
  let ?p = "no_params\<lparr>p_target_name := Some ''web01'', p_action_string := Some ''exec ls''\<rparr>"
  have 1: "p_target_name ?p = Some ''web01''" by simp
  have 2: "targets target_store ''web01'' = Some web01" by (simp add: target_store_def)
  have 3: "p_action_string ?p = Some ''exec ls''" by simp
  have 4: "p_quick ?p = Some True \<longrightarrow>
             filter (\<lambda>x. status x = active_status ?E) (sessions web01) \<noteq> []"
    by (simp add: no_params_def)
  have a: "new_action_id ?E ?p = uuid4 ?E 0" by (simp add: no_params_def)
  have 5: "actions target_store (new_action_id ?E ?p) = None"
    by (simp add: target_store_def user_store_def empty_store_def)
  from create_then_get_action [OF 1 2 3 demo_parse_exec demo_context_resolves 4 5]
  show ?thesis unfolding a .
qed

end
